theory Spec2Isabelle
  imports Main "HOL-Library.Word"
begin

section \<open>The chat client session of gui.go\<close>

text \<open>
  A shallow embedding of the session core of \<^verbatim>\<open>gui.go\<close>: the struct
  \<^verbatim>\<open>ChatApplication\<close> as a record, its methods as functions that take the
  state and return the new one, and everything the methods do to the outside (dialogs,
  emits on the socket, sleeps, dials, the spawned goroutine) as events appended to a trace.
  Logging (\<^verbatim>\<open>log.Println\<close>, \<^verbatim>\<open>fmt.Printf\<close>) and the layout of the
  window are left out.
\<close>

subsection \<open>Data\<close>

text \<open>Ids are Go's \<^verbatim>\<open>int64\<close>; the code only compares them.\<close>

type_synonym int64 = "64 word"

text \<open>
  The declarations of \<^verbatim>\<open>UserPublicInfo\<close>, \<^verbatim>\<open>User\<close>,
  \<^verbatim>\<open>Channel\<close> and \<^verbatim>\<open>SavedMessage\<close> are not part of the sources at hand.
  The types below carry the fields that \<^verbatim>\<open>gui.go\<close> reads
  (\<^verbatim>\<open>user.Id\<close>, \<^verbatim>\<open>user.Username\<close>, \<^verbatim>\<open>channel.Id\<close>,
  \<^verbatim>\<open>channel.Title\<close>, \<^verbatim>\<open>msg.UserData.Id\<close>, \<^verbatim>\<open>msg.ChatId\<close>);
  a full user adds a credentials field to the public pair, and a message carries its text.
  \<^verbatim>\<open>Channel{id, title}\<close> is built positionally in the source, hence a constructor.
\<close>

record UserPublicInfo =
  Id :: int64
  Username :: string

record User = UserPublicInfo +
  PasswordHash :: string

datatype Channel = Channel (Channel_Id: int64) (Title: string)

record SavedMessage =
  UserData :: UserPublicInfo
  ChatId :: int64
  Text :: string

text \<open>The payloads of the outbound events, positional as the source builds them.\<close>

datatype payload =
    Message User int64 string
  | MessagesRequest int64 User
  | ChannelsRequest User

text \<open>
  What a method does to the outside world, in the order it does it. Durations are in
  seconds. \<open>Dial host port\<close> is \<^verbatim>\<open>gosocketio.Dial(gosocketio.GetUrl(host, port, false), ...)\<close>,
  \<open>On name\<close> a handler registration \<^verbatim>\<open>client.On(name, ...)\<close>,
  \<open>GoStartReconnectionTrying\<close> the statement
  \<^verbatim>\<open>go chatApp.startReconnectionTrying()\<close>, \<open>NilPanic\<close> a method call
  on the \<^verbatim>\<open>nil\<close> client (the run ends there: in every method below it is the
  last thing done).
\<close>

datatype event =
    Sleep nat
  | Dial string int
  | On string
  | Emit string payload
  | ShowError string
  | ShowInformation string string
  | GoStartReconnectionTrying
  | NilPanic

text \<open>
  The socket client a successful dial hands back. Its only behaviour the code branches
  on is whether \<^verbatim>\<open>client.On(name, f)\<close> returns an error: \<open>OnError c name\<close> is
  that error's description, \<open>None\<close> for \<^verbatim>\<open>nil\<close>.
\<close>

record Client =
  OnError :: "string \<Rightarrow> string option"

text \<open>The selector widget: its options and the selected one.\<close>

record RadioGroup =
  Options :: "string list"
  Selected :: string

record HostData =
  Host :: string
  Port :: int

text \<open>
  The struct \<^verbatim>\<open>ChatApplication\<close>. \<open>MessagesList\<close> is the displayed list of
  messages, \<open>ProfileInfo\<close> the label's text, \<open>LeftSideBar\<close> the labels appended to
  the side bar; \<^verbatim>\<open>App\<close>, \<^verbatim>\<open>Window\<close> and the scroller hold no session data.
\<close>

record ChatApplication =
  LeftSideBar :: "string list"
  MessagesList :: "SavedMessage list"
  Client :: "Client option"
  Connected :: bool
  CurrentUser :: User
  LoggedIn :: bool
  CurrentChatId :: int64
  ProfileInfo :: string
  Channels :: "Channel list"
  ChannelsRadioGroup :: RadioGroup

text \<open>
  The application together with the world around it: the trace of events so far, the
  contents of \<^verbatim>\<open>settings.json\<close> (\<open>None\<close> when \<^verbatim>\<open>ioutil.ReadFile\<close> fails),
  whether \<^verbatim>\<open>ioutil.WriteFile\<close> succeeds, the two functions of
  \<^verbatim>\<open>encoding/json\<close> on \<^verbatim>\<open>HostData\<close> (\<open>None\<close> for an error), and the network:
  \<open>network w n\<close> is what the \<open>n\<close>-th call of \<^verbatim>\<open>gosocketio.Dial\<close> returns, an
  error's description or a client; \<open>dials w\<close> counts the calls made.
  Of the surroundings only the trace, the file and the count of dials ever change.
  An error is a value here (\<open>None\<close>, or the left of a sum), so the test
  \<^verbatim>\<open>isError(err)\<close>, a helper declared outside the sources at hand, is the case
  distinction on that value: \<^verbatim>\<open>err != nil\<close>, as the earlier revision writes the
  same tests.
\<close>

record World = ChatApplication +
  trace :: "event list"
  settings_file :: "string option"
  file_writable :: bool
  json_Marshal :: "HostData \<Rightarrow> string option"
  json_Unmarshal :: "string \<Rightarrow> HostData option"
  network :: "nat \<Rightarrow> string + Client"
  dials :: nat

subsection \<open>Constants\<close>

definition DEFAULT_HOST :: string where
  "DEFAULT_HOST = ''localhost''"

definition DEFAULT_PORT :: int where
  "DEFAULT_PORT = 3811"

definition GROUP_CHANNEL_TITLE :: string where
  "GROUP_CHANNEL_TITLE = ''MAIN''"

definition NOTES_CHANNEL_TITLE :: string where
  "NOTES_CHANNEL_TITLE = ''NOTES''"

text \<open>
  Modelled from the spec: the constant \<^verbatim>\<open>GROUP_CHAT_ID\<close> is declared outside the
  sources at hand. The spec's data model gives the reserved group id as the constant 0, and
  \<^verbatim>\<open>init\<close> sets \<^verbatim>\<open>CurrentChatId = 0 // main channel\<close>.
\<close>

definition GROUP_CHAT_ID :: int64 where
  "GROUP_CHAT_ID = 0"

subsection \<open>The message list\<close>

text \<open>
  Modelled from the spec: \<^verbatim>\<open>MessageList\<close> and its methods are declared outside the
  sources at hand. By the spec's event table a visible message is appended to the
  displayed list, and a batch replaces the list wholesale.
\<close>

definition addMessageToList :: "SavedMessage \<Rightarrow> 'a ChatApplication_scheme \<Rightarrow> 'a ChatApplication_scheme" where
  "addMessageToList msg chatApp = chatApp\<lparr>MessagesList := MessagesList chatApp @ [msg]\<rparr>"

definition clearMessagesList :: "'a ChatApplication_scheme \<Rightarrow> 'a ChatApplication_scheme" where
  "clearMessagesList chatApp = chatApp\<lparr>MessagesList := []\<rparr>"

subsection \<open>The handler of /message\<close>

text \<open>
  Modelled from the spec: the method \<^verbatim>\<open>getChatType\<close> of \<^verbatim>\<open>SavedMessage\<close> is
  declared outside the sources at hand. By the spec's data model a message is classified
  by its chat id alone: the group id makes it a group message, any other id a private one.
\<close>

definition getChatType :: "SavedMessage \<Rightarrow> string" where
  "getChatType msg = (if ChatId msg = GROUP_CHAT_ID then ''group'' else ''private'')"

definition on_message :: "SavedMessage \<Rightarrow> 'a ChatApplication_scheme \<Rightarrow> 'a ChatApplication_scheme" where
  "on_message msg chatApp =
    (let currentChatId = CurrentChatId chatApp;
         currentUserId = Id (CurrentUser chatApp);
         chatType = getChatType msg;
         isMessageFromMe = (Id (UserData msg) = Id (CurrentUser chatApp));
         isMessageToMe = (ChatId msg = Id (CurrentUser chatApp));
         isNotesMessage = (isMessageFromMe \<and> isMessageToMe);
         chatApp1 =
           (if chatType = ''group'' \<and> CurrentChatId chatApp = GROUP_CHAT_ID
            then addMessageToList msg chatApp else chatApp)
     in if chatType = ''private'' then
          (if isNotesMessage \<and> currentChatId = currentUserId then addMessageToList msg chatApp1
           else if isMessageFromMe \<and> currentChatId = ChatId msg then addMessageToList msg chatApp1
           else if isMessageToMe \<and> currentChatId = Id (UserData msg) then addMessageToList msg chatApp1
           else chatApp1)
        else chatApp1)"

text \<open>The handler of the earlier revision: one comparison.\<close>

definition on_message_earlier :: "SavedMessage \<Rightarrow> 'a ChatApplication_scheme \<Rightarrow> 'a ChatApplication_scheme" where
  "on_message_earlier msg chatApp =
    (if CurrentChatId chatApp = ChatId msg then addMessageToList msg chatApp else chatApp)"

text \<open>
  The router as the spec words it (section 4.3): five branches, in this order.
\<close>

definition isVisible :: "SavedMessage \<Rightarrow> 'a ChatApplication_scheme \<Rightarrow> bool" where
  "isVisible m s =
    (if ChatId m = GROUP_CHAT_ID then CurrentChatId s = GROUP_CHAT_ID
     else if Id (UserData m) = Id (CurrentUser s) \<and> ChatId m = Id (CurrentUser s)
       then CurrentChatId s = Id (CurrentUser s)
     else if Id (UserData m) = Id (CurrentUser s) then CurrentChatId s = ChatId m
     else if ChatId m = Id (CurrentUser s) then CurrentChatId s = Id (UserData m)
     else False)"

subsection \<open>Effects\<close>

definition perform :: "event \<Rightarrow> World \<Rightarrow> World" where
  "perform e w = w\<lparr>trace := trace w @ [e]\<rparr>"

definition time_Sleep :: "nat \<Rightarrow> World \<Rightarrow> World" where
  "time_Sleep d w = perform (Sleep d) w"

definition showError :: "string \<Rightarrow> World \<Rightarrow> World" where
  "showError description w = perform (ShowError description) w"

definition Client_Emit :: "string \<Rightarrow> payload \<Rightarrow> World \<Rightarrow> World" where
  "Client_Emit name p w =
    (case Client w of None \<Rightarrow> perform NilPanic w | Some c \<Rightarrow> perform (Emit name p) w)"

text \<open>\<^verbatim>\<open>fmt.Sprintf("%d", n)\<close>: the decimal digits, with a minus sign below zero.\<close>

function fmt_nat :: "nat \<Rightarrow> string" where
  "fmt_nat n = (if n < 10 then [''0123456789'' ! n] else fmt_nat (n div 10) @ [''0123456789'' ! (n mod 10)])"
  by pat_completeness auto
termination
  by (relation "measure (\<lambda>n. n)") auto

definition fmt_d :: "int \<Rightarrow> string" where
  "fmt_d i = (if i < 0 then CHR ''-'' # fmt_nat (nat (- i)) else fmt_nat (nat i))"

subsection \<open>Sending and loading\<close>

definition sendMessage :: "string \<Rightarrow> World \<Rightarrow> World" where
  "sendMessage text_in w =
    (let user = CurrentUser w
     in if Connected w \<and> LoggedIn w then
          Client_Emit ''/message'' (Message user (CurrentChatId w) text_in) w
        else if \<not> LoggedIn w then showError ''You are not logged in.'' w
        else showError ''You are not connected to the server.'' w)"

definition loadChannels :: "World \<Rightarrow> World" where
  "loadChannels w = Client_Emit ''/get-channels'' (ChannelsRequest (CurrentUser w)) w"

definition loadMessages :: "int64 \<Rightarrow> World \<Rightarrow> World" where
  "loadMessages chatId w =
    (if \<not> Connected w \<or> \<not> LoggedIn w then w
     else Client_Emit ''/get-messages'' (MessagesRequest chatId (CurrentUser w)) w)"

subsection \<open>The channel directory\<close>

text \<open>
  The selector of the toolkit. The toolkit is not part of the sources at hand; what the
  code relies on is taken as follows. Its redraw \<^verbatim>\<open>Refresh\<close> removes duplicate
  options, going through them in order and keeping the first of each:
  \<^verbatim>\<open>removeDuplicates\<close> collects in \<open>result\<close> the options not yet found.
\<close>

fun removeDuplicates_loop :: "string list \<Rightarrow> string list \<Rightarrow> string list" where
  "removeDuplicates_loop result [] = result"
| "removeDuplicates_loop result (option # rest) =
    (if option \<in> set result then removeDuplicates_loop result rest
     else removeDuplicates_loop (result @ [option]) rest)"

definition removeDuplicates :: "string list \<Rightarrow> string list" where
  "removeDuplicates options = removeDuplicates_loop [] options"

definition RadioGroup_Refresh :: "RadioGroup \<Rightarrow> RadioGroup" where
  "RadioGroup_Refresh r = r\<lparr>Options := removeDuplicates (Options r)\<rparr>"

text \<open>
  \<^verbatim>\<open>refreshChannelList\<close>: the two fixed titles, then one append per channel of the
  directory, in its order; the list becomes the selector's options, and the selector is
  redrawn.
\<close>

definition refreshChannelList :: "'a ChatApplication_scheme \<Rightarrow> 'a ChatApplication_scheme" where
  "refreshChannelList chatApp =
    (let stringChannels =
           foldl (\<lambda>acc channel. acc @ [Title channel])
             [GROUP_CHANNEL_TITLE, NOTES_CHANNEL_TITLE] (Channels chatApp)
     in chatApp\<lparr>ChannelsRadioGroup :=
          RadioGroup_Refresh ((ChannelsRadioGroup chatApp)\<lparr>Options := stringChannels\<rparr>)\<rparr>)"

text \<open>The loop of \<^verbatim>\<open>getChannelId\<close>: the id of the first channel with the title.\<close>

fun getChannelId_loop :: "Channel list \<Rightarrow> string \<Rightarrow> int64 option" where
  "getChannelId_loop [] title = None"
| "getChannelId_loop (channel # rest) title =
    (if Title channel = title then Some (Channel_Id channel) else getChannelId_loop rest title)"

definition getChannelId :: "string \<Rightarrow> 'a ChatApplication_scheme \<Rightarrow> int64" where
  "getChannelId title chatApp =
    (case getChannelId_loop (Channels chatApp) title of
       Some found \<Rightarrow> found
     | None \<Rightarrow>
         if title = NOTES_CHANNEL_TITLE then Id (CurrentUser chatApp)
         else GROUP_CHAT_ID)"

fun isChannelInList_loop :: "Channel list \<Rightarrow> int64 \<Rightarrow> bool" where
  "isChannelInList_loop [] channelId = False"
| "isChannelInList_loop (c # rest) channelId =
    (if Channel_Id c = channelId then True else isChannelInList_loop rest channelId)"

definition isChannelInList :: "int64 \<Rightarrow> 'a ChatApplication_scheme \<Rightarrow> bool" where
  "isChannelInList channelId chatApp = isChannelInList_loop (Channels chatApp) channelId"

definition openChannel :: "int64 \<Rightarrow> World \<Rightarrow> World" where
  "openChannel chatId w = loadMessages chatId (w\<lparr>CurrentChatId := chatId\<rparr>)"

definition openNotesChannel :: "World \<Rightarrow> World" where
  "openNotesChannel w = openChannel (Id (CurrentUser w)) w"

text \<open>
  The callback that \<^verbatim>\<open>buildRightSidebar\<close> gives the selector, and the two other
  methods of the selector that the code calls: \<^verbatim>\<open>SetSelected\<close> is taken to do
  nothing when the option is selected already and to run the callback otherwise (the
  /login handler relies on the callback running), \<^verbatim>\<open>Append\<close> to add the option at
  the end and redraw, so that an option already there is not shown a second time.
\<close>

definition RadioGroup_OnChanged :: "string \<Rightarrow> World \<Rightarrow> World" where
  "RadioGroup_OnChanged changed w =
    (let selectedChatId = getChannelId changed w in openChannel selectedChatId w)"

definition RadioGroup_SetSelected :: "string \<Rightarrow> World \<Rightarrow> World" where
  "RadioGroup_SetSelected option w =
    (if Selected (ChannelsRadioGroup w) = option then w
     else RadioGroup_OnChanged option
            (w\<lparr>ChannelsRadioGroup := (ChannelsRadioGroup w)\<lparr>Selected := option\<rparr>\<rparr>))"

definition RadioGroup_Append :: "string \<Rightarrow> World \<Rightarrow> World" where
  "RadioGroup_Append option w =
    w\<lparr>ChannelsRadioGroup :=
        RadioGroup_Refresh
          ((ChannelsRadioGroup w)\<lparr>Options := Options (ChannelsRadioGroup w) @ [option]\<rparr>)\<rparr>"

definition openChannelByUser :: "UserPublicInfo \<Rightarrow> World \<Rightarrow> World" where
  "openChannelByUser user w =
    (if Id user = Id (CurrentUser w) then RadioGroup_SetSelected NOTES_CHANNEL_TITLE w
     else
       let w1 =
             (if \<not> isChannelInList (Id user) w then
                (let w0 = RadioGroup_Append (Username user) w
                 in w0\<lparr>Channels := Channels w0 @ [Channel (Id user) (Username user)]\<rparr>)
              else w)
       in RadioGroup_SetSelected (Username user) w1)"

subsection \<open>The other handlers\<close>

definition on_login :: "User \<Rightarrow> World \<Rightarrow> World" where
  "on_login user w =
    (let w1 = w\<lparr>CurrentUser := user, LoggedIn := True,
                 ProfileInfo := ''WELCOME, '' @ Username user,
                 LeftSideBar := LeftSideBar w @ [''Success Login: '' @ Username user],
                 CurrentChatId := GROUP_CHAT_ID\<rparr>
     in loadChannels (clearMessagesList w1))"

definition on_get_messages :: "SavedMessage list \<Rightarrow> World \<Rightarrow> World" where
  "on_get_messages messages w = (clearMessagesList w)\<lparr>MessagesList := messages\<rparr>"


definition initClientCallbacks :: "World \<Rightarrow> World" where
  "initClientCallbacks w =
    foldl (\<lambda>w1 name. perform (On name) w1) w
      [''/failed-login'', ''/failed-registeration'', ''/login'', ''/message'',
       ''/get-messages'', ''/get-channels'']"

subsection \<open>The settings file\<close>

definition saveDefaultHostSettings :: "World \<Rightarrow> World" where
  "saveDefaultHostSettings w =
    (let defaultHostData = \<lparr>Host = DEFAULT_HOST, Port = DEFAULT_PORT\<rparr>;
         jsonByteData = (case json_Marshal w defaultHostData of Some b \<Rightarrow> b | None \<Rightarrow> [])
     in if file_writable w then w\<lparr>settings_file := Some jsonByteData\<rparr> else w)"

definition getHostDataFromSettingsFile :: "World \<Rightarrow> (string \<times> int) \<times> World" where
  "getHostDataFromSettingsFile w =
    (case settings_file w of
       None \<Rightarrow> ((DEFAULT_HOST, DEFAULT_PORT), saveDefaultHostSettings w)
     | Some f \<Rightarrow>
         (case json_Unmarshal w f of
            None \<Rightarrow> ((DEFAULT_HOST, DEFAULT_PORT), saveDefaultHostSettings w)
          | Some hostData \<Rightarrow> ((Host hostData, Port hostData), w)))"

subsection \<open>Connecting\<close>

definition OnDisconnection :: string where
  "OnDisconnection = ''disconnection''"

definition OnConnection :: string where
  "OnConnection = ''connection''"

definition gosocketio_Dial :: "string \<Rightarrow> int \<Rightarrow> World \<Rightarrow> (string + Client) \<times> World" where
  "gosocketio_Dial host port w =
    (network w (dials w), perform (Dial host port) (w\<lparr>dials := Suc (dials w)\<rparr>))"

definition connect_info :: "string \<Rightarrow> int \<Rightarrow> string \<Rightarrow> string" where
  "connect_info host port err =
    ''Can't connect to host '' @ [CHR 0x22] @ host @ '':'' @ fmt_d port @ [CHR 0x22, CHR 0x0A]
    @ ''Next try after: 10 sec'' @ [CHR 0x0A]
    @ ''Description: '' @ err @ [CHR 0x0A]"

definition connect :: "string \<Rightarrow> int \<Rightarrow> bool \<Rightarrow> World \<Rightarrow> bool \<times> World" where
  "connect host port isReconnect w =
    (let w1 = time_Sleep 1 w;
         (dialled, w2) = gosocketio_Dial host port w1
     in case dialled of
          Inl err \<Rightarrow>
            (if \<not> isReconnect then
               (let info = connect_info host port err;
                    w3 = showError info w2
                in (False, perform GoStartReconnectionTrying w3))
             else (False, w2))
        | Inr client \<Rightarrow>
            (let w3 = perform (On OnDisconnection) w2
             in case OnError client OnDisconnection of
                  Some err \<Rightarrow> (False, showError err w3)
                | None \<Rightarrow>
                    (let w4 = perform (On OnConnection) w3
                     in case OnError client OnConnection of
                          Some err \<Rightarrow> (False, showError err w4)
                        | None \<Rightarrow>
                            (True, initClientCallbacks (w4\<lparr>Client := Some client, Connected := True\<rparr>)))))"

text \<open>
  \<^verbatim>\<open>startReconnectionTrying\<close>: the loop \<^verbatim>\<open>for i := 0; i < 10; i++\<close> as a
  recursion on \<open>i\<close>; \<^verbatim>\<open>time.ParseDuration(fmt.Sprintf("%dm", i))\<close> is \<open>i\<close> minutes.
\<close>

function startReconnectionTrying_loop :: "nat \<Rightarrow> World \<Rightarrow> World" where
  "startReconnectionTrying_loop i w =
    (if i < 10 then
       (let w1 = (if i \<noteq> 0 then time_Sleep (60 * i) w else w);
            ((host, port), w2) = getHostDataFromSettingsFile w1;
            (ok, w3) = connect host port True w2
        in if ok then perform (ShowInformation ''Success!'' ''Connection restored!'') w3
           else startReconnectionTrying_loop (i + 1) w3)
     else w)"
  by pat_completeness auto
termination
  by (relation "measure (\<lambda>(i, w). 10 - i)") auto

definition startReconnectionTrying :: "World \<Rightarrow> World" where
  "startReconnectionTrying w = startReconnectionTrying_loop 0 (time_Sleep 10 w)"

text \<open>
  One pass of the loop's body up to the test of what \<^verbatim>\<open>connect\<close> returned, and
  whether \<^verbatim>\<open>connect\<close> returns true on what a dial returned (a client that takes
  both registrations).
\<close>

definition reconnection_attempt :: "nat \<Rightarrow> World \<Rightarrow> bool \<times> World" where
  "reconnection_attempt i w =
    (let w1 = (if i \<noteq> 0 then time_Sleep (60 * i) w else w);
         ((host, port), w2) = getHostDataFromSettingsFile w1
     in connect host port True w2)"

definition reconnects :: "string + Client \<Rightarrow> bool" where
  "reconnects dialled =
    (case dialled of
       Inl err \<Rightarrow> False
     | Inr client \<Rightarrow> OnError client OnDisconnection = None \<and> OnError client OnConnection = None)"

subsection \<open>The state at start\<close>

text \<open>
  \<^verbatim>\<open>main\<close> takes the zero value \<^verbatim>\<open>ChatApplication{}\<close> and calls
  \<^verbatim>\<open>init\<close>: the main channel is open, nobody is logged in, nothing is connected,
  and the selector that \<^verbatim>\<open>buildRightSidebar\<close> makes has no options. \<open>init_World\<close>
  puts that application into given surroundings, with an empty trace.
\<close>

definition init :: ChatApplication where
  "init =
    \<lparr>LeftSideBar = [], MessagesList = [], Client = None, Connected = False,
     CurrentUser = \<lparr>Id = 0, Username = [], PasswordHash = []\<rparr>, LoggedIn = False,
     CurrentChatId = 0, ProfileInfo = [], Channels = [],
     ChannelsRadioGroup = \<lparr>Options = [], Selected = []\<rparr>\<rparr>"

definition init_World ::
  "string option \<Rightarrow> bool \<Rightarrow> (HostData \<Rightarrow> string option) \<Rightarrow> (string \<Rightarrow> HostData option)
    \<Rightarrow> (nat \<Rightarrow> string + Client) \<Rightarrow> World" where
  "init_World file writable marshal unmarshal net =
    ChatApplication.extend init
      \<lparr>trace = [], settings_file = file, file_writable = writable, json_Marshal = marshal,
       json_Unmarshal = unmarshal, network = net, dials = 0\<rparr>"

subsection \<open>Reading a trace\<close>

text \<open>The events a run added to the trace.\<close>

definition since :: "World \<Rightarrow> World \<Rightarrow> event list" where
  "since w w' = drop (length (trace w)) (trace w')"

text \<open>
  The time at which each dial of a trace fires, counted from \<open>t\<close> at its start: the
  sleeps before it, added up. The time a dial itself takes is not counted, so these are
  the earliest times.
\<close>

fun dial_times :: "nat \<Rightarrow> event list \<Rightarrow> nat list" where
  "dial_times t [] = []"
| "dial_times t (Sleep d # es) = dial_times (t + d) es"
| "dial_times t (Dial host port # es) = t # dial_times t es"
| "dial_times t (e # es) = dial_times t es"

text \<open>The time a trace takes at least: its sleeps, added up.\<close>

fun elapsed :: "event list \<Rightarrow> nat" where
  "elapsed [] = 0"
| "elapsed (Sleep d # es) = d + elapsed es"
| "elapsed (e # es) = elapsed es"

text \<open>
  The schedule of the retry loop: the \<open>k\<close>-th attempt (\<open>k = 1, 2, ...\<close>) comes after the
  initial 10 seconds, the minutes \<open>1 + ... + (k - 1)\<close> slept before the attempts up to
  it, and the second that each of the \<open>k\<close> calls of \<^verbatim>\<open>connect\<close> sleeps before it
  dials. \<open>claimed_time k\<close> is the bound of the spec's retry schedule, 10 seconds plus
  \<open>1 + ... + k\<close> minutes.
\<close>

definition attempt_time :: "nat \<Rightarrow> nat" where
  "attempt_time k = 10 + 60 * (\<Sum>j = 1..<k. j) + k"

definition claimed_time :: "nat \<Rightarrow> nat" where
  "claimed_time k = 10 + 60 * (\<Sum>j = 1..<Suc k. j)"

fun is_notification :: "event \<Rightarrow> bool" where
  "is_notification (ShowError description) = True"
| "is_notification (ShowInformation title_in message) = True"
| "is_notification e = False"

fun is_Dial :: "event \<Rightarrow> bool" where
  "is_Dial (Dial host port) = True"
| "is_Dial e = False"

fun is_Emit :: "event \<Rightarrow> bool" where
  "is_Emit (Emit name p) = True"
| "is_Emit e = False"

subsection \<open>Example surroundings\<close>

text \<open>
  A stand-in for \<^verbatim>\<open>encoding/json\<close> on \<^verbatim>\<open>HostData\<close>, for the concrete runs
  below: the text \<^verbatim>\<open>json.Marshal\<close> gives for a record with a plain host name,
  and a decoder that reads back the default record's text and rejects every other.
\<close>

definition example_Marshal :: "HostData \<Rightarrow> string option" where
  "example_Marshal d =
    Some (''{'' @ [CHR 0x22] @ ''host'' @ [CHR 0x22] @ '':'' @ [CHR 0x22] @ Host d @ [CHR 0x22]
          @ '','' @ [CHR 0x22] @ ''port'' @ [CHR 0x22] @ '':'' @ fmt_d (Port d) @ ''}'')"

definition example_Unmarshal :: "string \<Rightarrow> HostData option" where
  "example_Unmarshal b =
    (if Some b = example_Marshal \<lparr>Host = DEFAULT_HOST, Port = DEFAULT_PORT\<rparr>
     then Some \<lparr>Host = DEFAULT_HOST, Port = DEFAULT_PORT\<rparr> else None)"

section \<open>Theorems\<close>

subsection \<open>The message router\<close>

lemma addMessageToList_changes: "addMessageToList msg chatApp \<noteq> chatApp"
proof
  assume "addMessageToList msg chatApp = chatApp"
  then have "length (MessagesList (addMessageToList msg chatApp)) = length (MessagesList chatApp)"
    by simp
  then show False by (simp add: addMessageToList_def)
qed

text \<open>
  C1. For every inbound message and every session state the /message handler displays
  the message exactly when the five-branch router says so: it appends the message once to
  the displayed list when the router holds and leaves the state as it was otherwise. A
  group message is routed by the open channel being the group; a private one by the notes,
  from-me and to-me branches in this order, and a private message neither from nor to the
  viewer is not displayed. The handler has no failing branch.
\<close>

theorem on_message_routes:
  "on_message m s = (if isVisible m s then addMessageToList m s else s)
   \<and> (MessagesList (on_message m s) = MessagesList s @ [m]) = isVisible m s
   \<and> (on_message m s = s) = (\<not> isVisible m s)"
proof -
  have step: "on_message m s = (if isVisible m s then addMessageToList m s else s)"
    by (simp add: on_message_def isVisible_def getChatType_def Let_def)
  have shown: "MessagesList (addMessageToList m s) = MessagesList s @ [m]"
    by (simp add: addMessageToList_def)
  show ?thesis
    using step shown addMessageToList_changes [of m s] by simp
qed

theorem on_message_routes_witness:
  "on_message \<lparr>UserData = \<lparr>Id = 9, Username = ''bob''\<rparr>, ChatId = 7, Text = ''hi''\<rparr>
     (init\<lparr>CurrentUser := \<lparr>Id = 7, Username = ''ann'', PasswordHash = []\<rparr>, LoggedIn := True,
           CurrentChatId := 9\<rparr>)
   = addMessageToList \<lparr>UserData = \<lparr>Id = 9, Username = ''bob''\<rparr>, ChatId = 7, Text = ''hi''\<rparr>
     (init\<lparr>CurrentUser := \<lparr>Id = 7, Username = ''ann'', PasswordHash = []\<rparr>, LoggedIn := True,
           CurrentChatId := 9\<rparr>)
   \<and> on_message \<lparr>UserData = \<lparr>Id = 9, Username = ''bob''\<rparr>, ChatId = 3, Text = ''hi''\<rparr>
     (init\<lparr>CurrentUser := \<lparr>Id = 7, Username = ''ann'', PasswordHash = []\<rparr>, LoggedIn := True,
           CurrentChatId := 9\<rparr>)
   = init\<lparr>CurrentUser := \<lparr>Id = 7, Username = ''ann'', PasswordHash = []\<rparr>, LoggedIn := True,
          CurrentChatId := 9\<rparr>"
  using on_message_routes [of "\<lparr>UserData = \<lparr>Id = 9, Username = ''bob''\<rparr>, ChatId = 7, Text = ''hi''\<rparr>"
      "init\<lparr>CurrentUser := \<lparr>Id = 7, Username = ''ann'', PasswordHash = []\<rparr>, LoggedIn := True,
            CurrentChatId := 9\<rparr>"]
    on_message_routes [of "\<lparr>UserData = \<lparr>Id = 9, Username = ''bob''\<rparr>, ChatId = 3, Text = ''hi''\<rparr>"
      "init\<lparr>CurrentUser := \<lparr>Id = 7, Username = ''ann'', PasswordHash = []\<rparr>, LoggedIn := True,
            CurrentChatId := 9\<rparr>"]
  by (simp add: isVisible_def GROUP_CHAT_ID_def init_def)

text \<open>
  C10. The handlers of the two revisions differ: there are a message and a session state,
  a private message addressed to the viewer while the viewer has its author's channel
  open, that the current handler displays and the earlier one (display iff the open
  channel is the message's chat id) does not.
\<close>

theorem revisions_differ:
  "\<exists>(m::SavedMessage) (s::ChatApplication).
      ChatId m = Id (CurrentUser s) \<and> CurrentChatId s = Id (UserData m)
      \<and> MessagesList (on_message m s) = MessagesList s @ [m]
      \<and> MessagesList (on_message_earlier m s) = MessagesList s"
proof (intro exI)
  show "ChatId \<lparr>UserData = \<lparr>Id = 9, Username = ''bob''\<rparr>, ChatId = 7, Text = ''hi''\<rparr>
        = Id (CurrentUser (init\<lparr>CurrentUser := \<lparr>Id = 7, Username = ''ann'', PasswordHash = []\<rparr>,
            LoggedIn := True, CurrentChatId := 9\<rparr>))
      \<and> CurrentChatId (init\<lparr>CurrentUser := \<lparr>Id = 7, Username = ''ann'', PasswordHash = []\<rparr>,
            LoggedIn := True, CurrentChatId := 9\<rparr>)
        = Id (UserData \<lparr>UserData = \<lparr>Id = 9, Username = ''bob''\<rparr>, ChatId = 7, Text = ''hi''\<rparr>)
      \<and> MessagesList (on_message \<lparr>UserData = \<lparr>Id = 9, Username = ''bob''\<rparr>, ChatId = 7, Text = ''hi''\<rparr>
          (init\<lparr>CurrentUser := \<lparr>Id = 7, Username = ''ann'', PasswordHash = []\<rparr>,
            LoggedIn := True, CurrentChatId := 9\<rparr>))
        = MessagesList (init\<lparr>CurrentUser := \<lparr>Id = 7, Username = ''ann'', PasswordHash = []\<rparr>,
            LoggedIn := True, CurrentChatId := 9\<rparr>)
          @ [\<lparr>UserData = \<lparr>Id = 9, Username = ''bob''\<rparr>, ChatId = 7, Text = ''hi''\<rparr>]
      \<and> MessagesList (on_message_earlier \<lparr>UserData = \<lparr>Id = 9, Username = ''bob''\<rparr>, ChatId = 7, Text = ''hi''\<rparr>
          (init\<lparr>CurrentUser := \<lparr>Id = 7, Username = ''ann'', PasswordHash = []\<rparr>,
            LoggedIn := True, CurrentChatId := 9\<rparr>))
        = MessagesList (init\<lparr>CurrentUser := \<lparr>Id = 7, Username = ''ann'', PasswordHash = []\<rparr>,
            LoggedIn := True, CurrentChatId := 9\<rparr>)"
    by (simp add: on_message_def on_message_earlier_def getChatType_def GROUP_CHAT_ID_def
        addMessageToList_def init_def)
qed

subsection \<open>The channel directory\<close>






lemma Client_Emit_fields [simp]:
  "Channels (Client_Emit n p w) = Channels w"
  "CurrentUser (Client_Emit n p w) = CurrentUser w"
  "ChannelsRadioGroup (Client_Emit n p w) = ChannelsRadioGroup w"
  "CurrentChatId (Client_Emit n p w) = CurrentChatId w"
  by (simp_all add: Client_Emit_def perform_def split: option.splits)

lemma loadMessages_fields [simp]:
  "Channels (loadMessages c w) = Channels w"
  "CurrentUser (loadMessages c w) = CurrentUser w"
  "ChannelsRadioGroup (loadMessages c w) = ChannelsRadioGroup w"
  "CurrentChatId (loadMessages c w) = CurrentChatId w"
  by (simp_all add: loadMessages_def)

lemma openChannel_fields [simp]:
  "Channels (openChannel c w) = Channels w"
  "CurrentUser (openChannel c w) = CurrentUser w"
  "ChannelsRadioGroup (openChannel c w) = ChannelsRadioGroup w"
  by (simp_all add: openChannel_def)

lemma SetSelected_fields [simp]:
  "Channels (RadioGroup_SetSelected t w) = Channels w"
  "CurrentUser (RadioGroup_SetSelected t w) = CurrentUser w"
  "Options (ChannelsRadioGroup (RadioGroup_SetSelected t w)) = Options (ChannelsRadioGroup w)"
  by (simp_all add: RadioGroup_SetSelected_def RadioGroup_OnChanged_def Let_def)

lemma isChannelInList_loop_set: "isChannelInList_loop cs i = (i \<in> Channel_Id ` set cs)"
  by (induction cs) auto

lemma openChannelByUser_Channels:
  "Channels (openChannelByUser user w) =
    (if Id user \<noteq> Id (CurrentUser w) \<and> \<not> isChannelInList (Id user) w
     then Channels w @ [Channel (Id user) (Username user)] else Channels w)"
  by (simp add: openChannelByUser_def Let_def RadioGroup_Append_def)

lemma openChannelByUser_Options:
  "Options (ChannelsRadioGroup (openChannelByUser user w)) =
    (if Id user \<noteq> Id (CurrentUser w) \<and> \<not> isChannelInList (Id user) w
     then removeDuplicates (Options (ChannelsRadioGroup w) @ [Username user])
     else Options (ChannelsRadioGroup w))"
  by (simp add: openChannelByUser_def Let_def RadioGroup_Append_def RadioGroup_Refresh_def)

lemma openChannelByUser_CurrentUser: "CurrentUser (openChannelByUser user w) = CurrentUser w"
  by (simp add: openChannelByUser_def Let_def RadioGroup_Append_def)

lemma openChannelByUser_known:
  "Id user = Id (CurrentUser (openChannelByUser user w))
   \<or> isChannelInList (Id user) (openChannelByUser user w)"
  by (simp add: openChannelByUser_CurrentUser isChannelInList_def openChannelByUser_Channels
      isChannelInList_loop_set)

text \<open>
  C6. The directory step of \<^verbatim>\<open>openChannelByUser\<close> is idempotent: a second call with
  the same identity leaves the directory (its length, its entries, and the selector's
  options) as the first call left it, and an identity whose id is in the directory
  already, or is the viewer's own, is not appended.
\<close>

theorem openChannelByUser_idempotent:
  "Channels (openChannelByUser user (openChannelByUser user w)) = Channels (openChannelByUser user w)
   \<and> length (Channels (openChannelByUser user (openChannelByUser user w)))
       = length (Channels (openChannelByUser user w))
   \<and> Options (ChannelsRadioGroup (openChannelByUser user (openChannelByUser user w)))
       = Options (ChannelsRadioGroup (openChannelByUser user w))
   \<and> (isChannelInList (Id user) w \<or> Id user = Id (CurrentUser w) \<longrightarrow>
        Channels (openChannelByUser user w) = Channels w
        \<and> Options (ChannelsRadioGroup (openChannelByUser user w)) = Options (ChannelsRadioGroup w))"
proof -
  let ?w = "openChannelByUser user w"
  have known: "Id user = Id (CurrentUser ?w) \<or> isChannelInList (Id user) ?w"
    by (rule openChannelByUser_known)
  have again: "Channels (openChannelByUser user ?w) = Channels ?w"
    using known by (auto simp: openChannelByUser_Channels [of user ?w])
  have again_opts:
    "Options (ChannelsRadioGroup (openChannelByUser user ?w)) = Options (ChannelsRadioGroup ?w)"
    using known by (auto simp: openChannelByUser_Options [of user ?w])
  have first: "isChannelInList (Id user) w \<or> Id user = Id (CurrentUser w) \<longrightarrow>
        Channels ?w = Channels w \<and> Options (ChannelsRadioGroup ?w) = Options (ChannelsRadioGroup w)"
    by (auto simp: openChannelByUser_Channels openChannelByUser_Options)
  show ?thesis using again again_opts first by simp
qed

theorem openChannelByUser_idempotent_witness:
  "Channels (openChannelByUser \<lparr>Id = 9, Username = ''bob''\<rparr>
      (init_World None True example_Marshal example_Unmarshal (\<lambda>n. Inl ''refused'')))
     = [Channel 9 ''bob'']
   \<and> Channels (openChannelByUser \<lparr>Id = 9, Username = ''bob''\<rparr>
        (openChannelByUser \<lparr>Id = 9, Username = ''bob''\<rparr>
          (init_World None True example_Marshal example_Unmarshal (\<lambda>n. Inl ''refused''))))
     = [Channel 9 ''bob'']
   \<and> Channels (openChannelByUser \<lparr>Id = 0, Username = []\<rparr>
      (init_World None True example_Marshal example_Unmarshal (\<lambda>n. Inl ''refused''))) = []"
  using
    openChannelByUser_idempotent [of "\<lparr>Id = 9, Username = ''bob''\<rparr>"
      "init_World None True example_Marshal example_Unmarshal (\<lambda>n. Inl ''refused'')"]
    openChannelByUser_idempotent [of "\<lparr>Id = 0, Username = []\<rparr>"
      "init_World None True example_Marshal example_Unmarshal (\<lambda>n. Inl ''refused'')"]
  by (simp add: openChannelByUser_Channels isChannelInList_def init_World_def init_def
      ChatApplication.extend_def)

lemma foldl_titles: "foldl (\<lambda>acc channel. acc @ [Title channel]) acc0 cs = acc0 @ map Title cs"
  by (induction cs arbitrary: acc0) auto

lemma removeDuplicates_loop_distinct:
  "distinct acc \<Longrightarrow> distinct (removeDuplicates_loop acc xs)"
  by (induction xs arbitrary: acc) auto




lemma removeDuplicates_distinct: "distinct (removeDuplicates xs)"
  by (simp add: removeDuplicates_def removeDuplicates_loop_distinct)





lemma refreshChannelList_Options:
  "Options (ChannelsRadioGroup (refreshChannelList chatApp)) =
     removeDuplicates (GROUP_CHANNEL_TITLE # NOTES_CHANNEL_TITLE # map Title (Channels chatApp))"
  by (simp add: refreshChannelList_def RadioGroup_Refresh_def foldl_titles)



text \<open>
  The options are free of duplicates after every change that the code makes to them, so
  the redraw that ends the toolkit's \<^verbatim>\<open>SetSelected\<close> finds nothing to remove.
\<close>

lemma selector_options_distinct:
  "distinct (Options (ChannelsRadioGroup (refreshChannelList chatApp)))"
  "distinct (Options (ChannelsRadioGroup (RadioGroup_Append name w)))"
  by (simp_all add: refreshChannelList_Options RadioGroup_Append_def RadioGroup_Refresh_def
      removeDuplicates_distinct)




subsection \<open>Sending and loading without a session\<close>

lemma since_self [simp]: "since w w = []"
  by (simp add: since_def)

lemma since_perform [simp]: "since w (w\<lparr>trace := trace w @ evs\<rparr>) = evs"
  by (simp add: since_def)

lemma connect_keeps_client:
  "(Connected w \<longrightarrow> Client w \<noteq> None) \<Longrightarrow>
   Connected (snd (connect host port isReconnect w)) \<longrightarrow>
   Client (snd (connect host port isReconnect w)) \<noteq> None"
  by (auto simp: connect_def Let_def time_Sleep_def perform_def gosocketio_Dial_def showError_def
      initClientCallbacks_def split: sum.splits option.splits)

text \<open>
  C9, as the code has it. While not connected or not logged in, \<^verbatim>\<open>sendMessage\<close>
  shows one error dialog, emits nothing and changes nothing else, and
  \<^verbatim>\<open>loadMessages\<close> returns at once: no dialog, no emit, no change at all. With
  the client in place whenever the connection flag is set (the only way \<^verbatim>\<open>connect\<close>
  sets it), \<^verbatim>\<open>sendMessage\<close> emits the message iff connected and logged in.
\<close>

theorem precondition_failures:
  "(\<not> (Connected w \<and> LoggedIn w) \<longrightarrow>
      sendMessage t w =
        w\<lparr>trace := trace w @
            [ShowError (if \<not> LoggedIn w then ''You are not logged in.''
                        else ''You are not connected to the server.'')]\<rparr>)
   \<and> (\<not> (Connected w \<and> LoggedIn w) \<longrightarrow> loadMessages c w = w)
   \<and> (Connected w \<and> LoggedIn w \<and> Client w \<noteq> None \<longrightarrow>
        sendMessage t w =
          w\<lparr>trace := trace w @ [Emit ''/message'' (Message (CurrentUser w) (CurrentChatId w) t)]\<rparr>)
   \<and> ((Connected w \<longrightarrow> Client w \<noteq> None) \<longrightarrow>
        (filter is_Emit (since w (sendMessage t w)) \<noteq> []) = (Connected w \<and> LoggedIn w))"
  by (auto simp: sendMessage_def loadMessages_def showError_def perform_def Client_Emit_def Let_def)

theorem precondition_failures_witness:
  "since (init_World None True example_Marshal example_Unmarshal (\<lambda>n. Inl ''refused''))
     (sendMessage ''hi'' (init_World None True example_Marshal example_Unmarshal (\<lambda>n. Inl ''refused'')))
     = [ShowError ''You are not logged in.'']
   \<and> loadMessages 5 (init_World None True example_Marshal example_Unmarshal (\<lambda>n. Inl ''refused''))
     = init_World None True example_Marshal example_Unmarshal (\<lambda>n. Inl ''refused'')
   \<and> since
       ((init_World None True example_Marshal example_Unmarshal (\<lambda>n. Inl ''refused''))
          \<lparr>Client := Some \<lparr>OnError = \<lambda>name. None\<rparr>, Connected := True, LoggedIn := True\<rparr>)
       (sendMessage ''hi''
         ((init_World None True example_Marshal example_Unmarshal (\<lambda>n. Inl ''refused''))
            \<lparr>Client := Some \<lparr>OnError = \<lambda>name. None\<rparr>, Connected := True, LoggedIn := True\<rparr>))
     = [Emit ''/message'' (Message \<lparr>Id = 0, Username = [], PasswordHash = []\<rparr> 0 ''hi'')]"
  using
    precondition_failures [of "init_World None True example_Marshal example_Unmarshal (\<lambda>n. Inl ''refused'')"
      "''hi''" 5]
    precondition_failures [of
      "(init_World None True example_Marshal example_Unmarshal (\<lambda>n. Inl ''refused''))
          \<lparr>Client := Some \<lparr>OnError = \<lambda>name. None\<rparr>, Connected := True, LoggedIn := True\<rparr>"
      "''hi''" 5]
  by (simp add: init_World_def init_def ChatApplication.extend_def since_def)

text \<open>
  C9 as stated fails for \<^verbatim>\<open>loadMessages\<close>: attempted while disconnected it raises
  no notification at all.
\<close>

theorem loadMessages_silent:
  "\<not> Connected (init_World None True example_Marshal example_Unmarshal (\<lambda>n. Inl ''refused''))
   \<and> filter is_notification
        (since (init_World None True example_Marshal example_Unmarshal (\<lambda>n. Inl ''refused''))
          (loadMessages 5 (init_World None True example_Marshal example_Unmarshal (\<lambda>n. Inl ''refused''))))
      = []"
  by (simp add: loadMessages_def init_World_def init_def ChatApplication.extend_def since_def)

subsection \<open>Connecting\<close>

text \<open>
  C4. When the dial fails, \<^verbatim>\<open>connect\<close> returns false. On a first attempt it shows
  one error dialog, whose text ends with the failure's description, and starts the retry
  loop once; on a retry it shows nothing and starts nothing. Either way it has slept a
  second and dialled once, and nothing else of the state changes.
\<close>

theorem connect_dial_failure:
  "network w (dials w) = Inl err \<longrightarrow>
     fst (connect host port isRetry w) = False
     \<and> snd (connect host port isRetry w) =
         w\<lparr>trace := trace w @ [Sleep 1, Dial host port] @
              (if isRetry then []
               else [ShowError (connect_info host port err), GoStartReconnectionTrying]),
           dials := Suc (dials w)\<rparr>
     \<and> since w (snd (connect host port isRetry w)) =
          [Sleep 1, Dial host port] @
            (if isRetry then []
             else [ShowError (connect_info host port err), GoStartReconnectionTrying])
     \<and> (\<exists>pre. connect_info host port err = pre @ err @ [CHR 0x0A])"
  by (auto simp: connect_def Let_def time_Sleep_def perform_def gosocketio_Dial_def showError_def
      since_def connect_info_def)

theorem connect_dial_failure_witness:
  "fst (connect ''localhost'' 3811 False
      (init_World None True example_Marshal example_Unmarshal (\<lambda>n. Inl ''refused''))) = False
   \<and> since (init_World None True example_Marshal example_Unmarshal (\<lambda>n. Inl ''refused''))
       (snd (connect ''localhost'' 3811 False
         (init_World None True example_Marshal example_Unmarshal (\<lambda>n. Inl ''refused''))))
     = [Sleep 1, Dial ''localhost'' 3811, ShowError (connect_info ''localhost'' 3811 ''refused''),
        GoStartReconnectionTrying]
   \<and> since (init_World None True example_Marshal example_Unmarshal (\<lambda>n. Inl ''refused''))
       (snd (connect ''localhost'' 3811 True
         (init_World None True example_Marshal example_Unmarshal (\<lambda>n. Inl ''refused''))))
     = [Sleep 1, Dial ''localhost'' 3811]"
  using
    connect_dial_failure [of "init_World None True example_Marshal example_Unmarshal (\<lambda>n. Inl ''refused'')"
      "''refused''" "''localhost''" 3811 False]
    connect_dial_failure [of "init_World None True example_Marshal example_Unmarshal (\<lambda>n. Inl ''refused'')"
      "''refused''" "''localhost''" 3811 True]
  by (simp add: init_World_def init_def ChatApplication.extend_def since_def)

subsection \<open>The settings file\<close>

text \<open>
  C8. When the settings file cannot be read or does not parse, loading the configuration
  returns the default host and port and shows no error; where the file can be written it
  then holds the default record's encoding; and, the json library reading that encoding
  back as the default record, a second load returns the default again, from the file and
  without writing it anew when the first load wrote it.
\<close>

theorem default_settings_recovered:
  "settings_file w = None \<or> (\<exists>f. settings_file w = Some f \<and> json_Unmarshal w f = None) \<longrightarrow>
     fst (getHostDataFromSettingsFile w) = (DEFAULT_HOST, DEFAULT_PORT)
     \<and> trace (snd (getHostDataFromSettingsFile w)) = trace w
     \<and> (file_writable w \<longrightarrow>
          settings_file (snd (getHostDataFromSettingsFile w)) =
            Some (case json_Marshal w \<lparr>Host = DEFAULT_HOST, Port = DEFAULT_PORT\<rparr> of
                    Some b \<Rightarrow> b | None \<Rightarrow> []))
     \<and> (\<forall>b. json_Marshal w \<lparr>Host = DEFAULT_HOST, Port = DEFAULT_PORT\<rparr> = Some b
            \<and> json_Unmarshal w b = Some \<lparr>Host = DEFAULT_HOST, Port = DEFAULT_PORT\<rparr> \<longrightarrow>
          getHostDataFromSettingsFile (snd (getHostDataFromSettingsFile w)) =
            ((DEFAULT_HOST, DEFAULT_PORT),
             if file_writable w then snd (getHostDataFromSettingsFile w)
             else saveDefaultHostSettings (snd (getHostDataFromSettingsFile w))))"
  by (auto simp: getHostDataFromSettingsFile_def saveDefaultHostSettings_def Let_def
      split: option.splits)

theorem default_settings_recovered_witness:
  "fst (getHostDataFromSettingsFile
      (init_World None True example_Marshal example_Unmarshal (\<lambda>n. Inl ''refused'')))
     = (''localhost'', 3811)
   \<and> settings_file (snd (getHostDataFromSettingsFile
      (init_World None True example_Marshal example_Unmarshal (\<lambda>n. Inl ''refused''))))
     = example_Marshal \<lparr>Host = ''localhost'', Port = 3811\<rparr>
   \<and> getHostDataFromSettingsFile (snd (getHostDataFromSettingsFile
      (init_World None True example_Marshal example_Unmarshal (\<lambda>n. Inl ''refused''))))
     = ((''localhost'', 3811), snd (getHostDataFromSettingsFile
      (init_World None True example_Marshal example_Unmarshal (\<lambda>n. Inl ''refused''))))
   \<and> fst (getHostDataFromSettingsFile
      (init_World (Some ''not json'') True example_Marshal example_Unmarshal (\<lambda>n. Inl ''refused'')))
     = (''localhost'', 3811)"
  using
    default_settings_recovered [of
      "init_World None True example_Marshal example_Unmarshal (\<lambda>n. Inl ''refused'')"]
    default_settings_recovered [of
      "init_World (Some ''not json'') True example_Marshal example_Unmarshal (\<lambda>n. Inl ''refused'')"]
  by (simp add: init_World_def init_def ChatApplication.extend_def example_Unmarshal_def
      example_Marshal_def DEFAULT_HOST_def DEFAULT_PORT_def)

subsection \<open>The retry loop\<close>

declare startReconnectionTrying_loop.simps [simp del]

lemma dial_times_append:
  "dial_times t (xs @ ys) = dial_times t xs @ dial_times (t + elapsed xs) ys"
  by (induction t xs rule: dial_times.induct) (simp_all add: add.assoc)

lemma elapsed_append: "elapsed (xs @ ys) = elapsed xs + elapsed ys"
  by (induction xs rule: elapsed.induct) simp_all

lemma since_extend:
  "trace w1 = trace w @ xs \<Longrightarrow> trace w2 = trace w1 @ ys \<Longrightarrow> since w w2 = xs @ ys"
  by (simp add: since_def)

lemma since_eq: "trace w1 = trace w @ xs \<Longrightarrow> since w w1 = xs"
  by (simp add: since_def)

lemma getHost_keeps [simp]:
  "trace (snd (getHostDataFromSettingsFile w)) = trace w"
  "dials (snd (getHostDataFromSettingsFile w)) = dials w"
  "network (snd (getHostDataFromSettingsFile w)) = network w"
  by (simp_all add: getHostDataFromSettingsFile_def saveDefaultHostSettings_def Let_def
      split: option.splits)

lemma initClientCallbacks_trace:
  "trace (initClientCallbacks w) = trace w @ map On [''/failed-login'', ''/failed-registeration'', ''/login'', ''/message'',
       ''/get-messages'', ''/get-channels'']"
  "dials (initClientCallbacks w) = dials w"
  "network (initClientCallbacks w) = network w"
  by (simp_all add: initClientCallbacks_def perform_def)

lemma connect_retry:
  "fst (connect host port True w) = reconnects (network w (dials w))"
  "dials (snd (connect host port True w)) = Suc (dials w)"
  "network (snd (connect host port True w)) = network w"
  by (auto simp: connect_def Let_def time_Sleep_def perform_def gosocketio_Dial_def showError_def
      reconnects_def initClientCallbacks_trace split: sum.splits option.splits)

lemma connect_retry_trace:
  "\<exists>rest. trace (snd (connect host port True w)) = trace w @ Sleep 1 # Dial host port # rest
      \<and> dial_times t rest = [] \<and> elapsed rest = 0 \<and> filter is_Dial rest = []
      \<and> (\<forall>a b. ShowInformation a b \<notin> set rest)
      \<and> (isl (network w (dials w)) \<longrightarrow> rest = [])
      \<and> (reconnects (network w (dials w)) \<longrightarrow> filter is_notification rest = [])"
  by (auto simp: connect_def Let_def time_Sleep_def perform_def gosocketio_Dial_def showError_def
      reconnects_def initClientCallbacks_trace split: sum.splits option.splits)


lemma attempt_time_Suc: "attempt_time (Suc i) = attempt_time i + 60 * i + 1"
proof (cases i)
  case 0
  then show ?thesis by (simp add: attempt_time_def)
next
  case (Suc n)
  then show ?thesis by (simp add: attempt_time_def)
qed

lemma attempt_time_0: "attempt_time 0 = 10"
  by (simp add: attempt_time_def)

lemma attempt_result:
  "fst (reconnection_attempt i w) = reconnects (network w (dials w))"
  "dials (snd (reconnection_attempt i w)) = Suc (dials w)"
  "network (snd (reconnection_attempt i w)) = network w"
  by (simp_all add: reconnection_attempt_def Let_def split_beta connect_retry time_Sleep_def perform_def)

lemma attempt_trace:
  "\<exists>evs. trace (snd (reconnection_attempt i w)) = trace w @ evs
      \<and> dial_times t evs = [t + 60 * i + 1] \<and> elapsed evs = 60 * i + 1
      \<and> length (filter is_Dial evs) = 1
      \<and> (\<forall>a b. ShowInformation a b \<notin> set evs)
      \<and> (isl (network w (dials w)) \<or> reconnects (network w (dials w)) \<longrightarrow> filter is_notification evs = [])"
proof -
  define w1 where "w1 = (if i \<noteq> 0 then time_Sleep (60 * i) w else w)"
  define w2 where "w2 = snd (getHostDataFromSettingsFile w1)"
  define host where "host = fst (fst (getHostDataFromSettingsFile w1))"
  define port where "port = snd (fst (getHostDataFromSettingsFile w1))"
  have att: "reconnection_attempt i w = connect host port True w2"
    by (simp add: reconnection_attempt_def Let_def split_beta w1_def w2_def host_def port_def)
  have w2: "trace w2 = trace w @ (if i \<noteq> 0 then [Sleep (60 * i)] else [])"
    "dials w2 = dials w" "network w2 = network w"
    by (simp_all add: w2_def w1_def time_Sleep_def perform_def)
  obtain rest where rest: "trace (snd (connect host port True w2)) = trace w2 @ Sleep 1 # Dial host port # rest"
    "dial_times (t + 60 * i + 1) rest = []" "elapsed rest = 0" "filter is_Dial rest = []"
    "\<forall>a b. ShowInformation a b \<notin> set rest"
    "isl (network w2 (dials w2)) \<longrightarrow> rest = []"
    "reconnects (network w2 (dials w2)) \<longrightarrow> filter is_notification rest = []"
    using connect_retry_trace [of host port w2 "t + 60 * i + 1"] by blast
  let ?evs = "(if i \<noteq> 0 then [Sleep (60 * i)] else []) @ Sleep 1 # Dial host port # rest"
  have "trace (snd (reconnection_attempt i w)) = trace w @ ?evs"
    using rest(1) w2(1) att by simp
  moreover have "dial_times t ?evs = [t + 60 * i + 1]"
    using rest(2) by (cases "i = 0") (simp_all add: add.assoc)
  moreover have "elapsed ?evs = 60 * i + 1"
    using rest(3) by simp
  moreover have "length (filter is_Dial ?evs) = 1"
    using rest(4) by simp
  moreover have "\<forall>a b. ShowInformation a b \<notin> set ?evs"
    using rest(5) by simp
  moreover have "isl (network w (dials w)) \<or> reconnects (network w (dials w)) \<longrightarrow> filter is_notification ?evs = []"
    using rest(6,7) w2(2,3) by auto
  ultimately show ?thesis by blast
qed

lemma loop_unfold:
  "startReconnectionTrying_loop i w =
    (if i < 10 then
       (if fst (reconnection_attempt i w)
        then perform (ShowInformation ''Success!'' ''Connection restored!'') (snd (reconnection_attempt i w))
        else startReconnectionTrying_loop (Suc i) (snd (reconnection_attempt i w)))
     else w)"
  by (subst startReconnectionTrying_loop.simps)
    (simp add: reconnection_attempt_def Let_def split_beta)


lemma shift_all: "\<forall>j<Suc m. P (d + j) \<Longrightarrow> \<forall>j<m. P (Suc (d + j))"
proof (intro allI impI)
  fix j assume all: "\<forall>j<Suc m. P (d + j)" and "j < m"
  then have "Suc j < Suc m" by simp
  with all have "P (d + Suc j)" by blast
  then show "P (Suc (d + j))" by simp
qed

lemma loop_exhaust:
  "10 - i = m \<Longrightarrow> i \<le> 10 \<Longrightarrow> \<forall>j<m. \<not> reconnects (network w (dials w + j)) \<Longrightarrow>
    \<exists>evs. trace (startReconnectionTrying_loop i w) = trace w @ evs
      \<and> dial_times (attempt_time i) evs = map attempt_time [Suc i..<11]
      \<and> length (filter is_Dial evs) = m
      \<and> (\<forall>a b. ShowInformation a b \<notin> set evs)
      \<and> ((\<forall>j<m. isl (network w (dials w + j))) \<longrightarrow> filter is_notification evs = [])"
proof (induction m arbitrary: i w)
  case 0
  then have "i = 10" by simp
  then have "startReconnectionTrying_loop i w = w"
    by (subst loop_unfold) simp
  then show ?case using \<open>i = 10\<close> by simp
next
  case (Suc m)
  let ?w3 = "snd (reconnection_attempt i w)"
  from Suc.prems have i: "i < 10" "10 - Suc i = m" "Suc i \<le> 10" by simp_all
  from Suc.prems(3) have "\<not> reconnects (network w (dials w + 0))" by blast
  then have fails: "\<not> fst (reconnection_attempt i w)"
    by (simp add: attempt_result)
  have step: "startReconnectionTrying_loop i w = startReconnectionTrying_loop (Suc i) ?w3"
    using i(1) fails by (subst loop_unfold) simp
  have later: "\<forall>j<m. \<not> reconnects (network ?w3 (dials ?w3 + j))"
    using shift_all [OF Suc.prems(3)] by (simp add: attempt_result)
  obtain evs2 where evs2:
    "trace (startReconnectionTrying_loop (Suc i) ?w3) = trace ?w3 @ evs2"
    "dial_times (attempt_time (Suc i)) evs2 = map attempt_time [Suc (Suc i)..<11]"
    "length (filter is_Dial evs2) = m"
    "\<forall>a b. ShowInformation a b \<notin> set evs2"
    "(\<forall>j<m. isl (network ?w3 (dials ?w3 + j))) \<longrightarrow> filter is_notification evs2 = []"
    using Suc.IH [OF i(2) i(3) later] by blast
  obtain evs1 where evs1:
    "trace ?w3 = trace w @ evs1"
    "dial_times (attempt_time i) evs1 = [attempt_time i + 60 * i + 1]"
    "elapsed evs1 = 60 * i + 1"
    "length (filter is_Dial evs1) = 1"
    "\<forall>a b. ShowInformation a b \<notin> set evs1"
    "isl (network w (dials w)) \<or> reconnects (network w (dials w)) \<longrightarrow> filter is_notification evs1 = []"
    using attempt_trace [of i w "attempt_time i"] by blast
  have upt: "[Suc i..<11] = Suc i # [Suc (Suc i)..<11]"
    using i(1) by (simp add: upt_conv_Cons)
  have "trace (startReconnectionTrying_loop i w) = trace w @ (evs1 @ evs2)"
    using step evs1(1) evs2(1) by simp
  moreover have "dial_times (attempt_time i) (evs1 @ evs2) = map attempt_time [Suc i..<11]"
    using evs1(2,3) evs2(2) upt by (simp add: dial_times_append attempt_time_Suc add.assoc)
  moreover have "length (filter is_Dial (evs1 @ evs2)) = Suc m"
    using evs1(4) evs2(3) by simp
  moreover have "\<forall>a b. ShowInformation a b \<notin> set (evs1 @ evs2)"
    using evs1(5) evs2(4) by simp
  moreover have "(\<forall>j<Suc m. isl (network w (dials w + j))) \<longrightarrow> filter is_notification (evs1 @ evs2) = []"
  proof
    assume all: "\<forall>j<Suc m. isl (network w (dials w + j))"
    then have "isl (network w (dials w + 0))" by blast
    then have one: "filter is_notification evs1 = []" using evs1(6) by simp
    have "\<forall>j<m. isl (network ?w3 (dials ?w3 + j))"
      using shift_all [OF all] by (simp add: attempt_result)
    then have "filter is_notification evs2 = []" using evs2(5) by blast
    then show "filter is_notification (evs1 @ evs2) = []" using one by simp
  qed
  ultimately show ?case by blast
qed

lemma loop_success:
  "i + k < 10 \<Longrightarrow> \<forall>j<k. \<not> reconnects (network w (dials w + j)) \<Longrightarrow>
   reconnects (network w (dials w + k)) \<Longrightarrow>
    \<exists>evs. trace (startReconnectionTrying_loop i w) =
        trace w @ evs @ [ShowInformation ''Success!'' ''Connection restored!'']
      \<and> dial_times (attempt_time i) evs = map attempt_time [Suc i..<Suc (Suc (i + k))]
      \<and> length (filter is_Dial evs) = Suc k
      \<and> (\<forall>a b. ShowInformation a b \<notin> set evs)
      \<and> ((\<forall>j<k. isl (network w (dials w + j))) \<longrightarrow> filter is_notification evs = [])"
proof (induction k arbitrary: i w)
  case 0
  let ?w3 = "snd (reconnection_attempt i w)"
  from 0 have i: "i < 10" by simp
  from 0 have ok: "fst (reconnection_attempt i w)" by (simp add: attempt_result)
  have step: "startReconnectionTrying_loop i w =
      perform (ShowInformation ''Success!'' ''Connection restored!'') ?w3"
    using i ok by (subst loop_unfold) simp
  obtain evs1 where evs1:
    "trace ?w3 = trace w @ evs1"
    "dial_times (attempt_time i) evs1 = [attempt_time i + 60 * i + 1]"
    "length (filter is_Dial evs1) = 1"
    "\<forall>a b. ShowInformation a b \<notin> set evs1"
    "isl (network w (dials w)) \<or> reconnects (network w (dials w)) \<longrightarrow> filter is_notification evs1 = []"
    using attempt_trace [of i w "attempt_time i"] by blast
  have "trace (startReconnectionTrying_loop i w) =
      trace w @ evs1 @ [ShowInformation ''Success!'' ''Connection restored!'']"
    using step evs1(1) by (simp add: perform_def)
  moreover have "dial_times (attempt_time i) evs1 = map attempt_time [Suc i..<Suc (Suc (i + 0))]"
    using evs1(2) by (simp add: attempt_time_Suc)
  moreover have "filter is_notification evs1 = []"
    using evs1(5) "0.prems"(3) by simp
  ultimately show ?case using evs1(3,4) by auto
next
  case (Suc k)
  let ?w3 = "snd (reconnection_attempt i w)"
  from Suc.prems have i: "i < 10" "Suc i + k < 10" by simp_all
  from Suc.prems(2) have "\<not> reconnects (network w (dials w + 0))" by blast
  then have fails: "\<not> fst (reconnection_attempt i w)"
    by (simp add: attempt_result)
  have step: "startReconnectionTrying_loop i w = startReconnectionTrying_loop (Suc i) ?w3"
    using i(1) fails by (subst loop_unfold) simp
  have later: "\<forall>j<k. \<not> reconnects (network ?w3 (dials ?w3 + j))"
    using shift_all [OF Suc.prems(2)] by (simp add: attempt_result)
  have here: "reconnects (network ?w3 (dials ?w3 + k))"
    using Suc.prems(3) by (simp add: attempt_result)
  obtain evs2 where evs2:
    "trace (startReconnectionTrying_loop (Suc i) ?w3) =
       trace ?w3 @ evs2 @ [ShowInformation ''Success!'' ''Connection restored!'']"
    "dial_times (attempt_time (Suc i)) evs2 = map attempt_time [Suc (Suc i)..<Suc (Suc (Suc i + k))]"
    "length (filter is_Dial evs2) = Suc k"
    "\<forall>a b. ShowInformation a b \<notin> set evs2"
    "(\<forall>j<k. isl (network ?w3 (dials ?w3 + j))) \<longrightarrow> filter is_notification evs2 = []"
    using Suc.IH [OF i(2) later here] by blast
  obtain evs1 where evs1:
    "trace ?w3 = trace w @ evs1"
    "dial_times (attempt_time i) evs1 = [attempt_time i + 60 * i + 1]"
    "elapsed evs1 = 60 * i + 1"
    "length (filter is_Dial evs1) = 1"
    "\<forall>a b. ShowInformation a b \<notin> set evs1"
    "isl (network w (dials w)) \<or> reconnects (network w (dials w)) \<longrightarrow> filter is_notification evs1 = []"
    using attempt_trace [of i w "attempt_time i"] by blast
  have upt: "[Suc i..<Suc (Suc (i + Suc k))] = Suc i # [Suc (Suc i)..<Suc (Suc (Suc i + k))]"
    by (simp add: upt_conv_Cons)
  have "trace (startReconnectionTrying_loop i w) =
      trace w @ (evs1 @ evs2) @ [ShowInformation ''Success!'' ''Connection restored!'']"
    using step evs1(1) evs2(1) by simp
  moreover have "dial_times (attempt_time i) (evs1 @ evs2)
      = map attempt_time [Suc i..<Suc (Suc (i + Suc k))]"
    using evs1(2,3) evs2(2) upt by (simp add: dial_times_append attempt_time_Suc add.assoc)
  moreover have "length (filter is_Dial (evs1 @ evs2)) = Suc (Suc k)"
    using evs1(4) evs2(3) by simp
  moreover have "\<forall>a b. ShowInformation a b \<notin> set (evs1 @ evs2)"
    using evs1(5) evs2(4) by simp
  moreover have "(\<forall>j<Suc k. isl (network w (dials w + j))) \<longrightarrow> filter is_notification (evs1 @ evs2) = []"
  proof
    assume all: "\<forall>j<Suc k. isl (network w (dials w + j))"
    then have "isl (network w (dials w + 0))" by blast
    then have one: "filter is_notification evs1 = []" using evs1(6) by simp
    have "\<forall>j<k. isl (network ?w3 (dials ?w3 + j))"
      using shift_all [OF all] by (simp add: attempt_result)
    then have "filter is_notification evs2 = []" using evs2(5) by blast
    then show "filter is_notification (evs1 @ evs2) = []" using one by simp
  qed
  ultimately show ?case by blast
qed


lemma first_success:
  "(\<forall>j<n::nat. \<not> P j) \<or> (\<exists>k<n. (\<forall>j<k. \<not> P j) \<and> P k)"
proof (induction n)
  case 0
  then show ?case by simp
next
  case (Suc n)
  then show ?case
  proof
    assume none: "\<forall>j<n. \<not> P j"
    show ?thesis
    proof (cases "P n")
      case True
      with none show ?thesis by blast
    next
      case False
      with none have "\<forall>j<Suc n. \<not> P j" by (simp add: less_Suc_eq)
      then show ?thesis by blast
    qed
  next
    assume "\<exists>k<n. (\<forall>j<k. \<not> P j) \<and> P k"
    then obtain k where "k < n" "\<forall>j<k. \<not> P j" "P k" by blast
    then have "k < Suc n \<and> (\<forall>j<k. \<not> P j) \<and> P k" by simp
    then show ?thesis by blast
  qed
qed

lemma start_trace:
  "trace (startReconnectionTrying_loop 0 (time_Sleep 10 w)) = trace (time_Sleep 10 w) @ evs \<Longrightarrow>
   since w (startReconnectionTrying w) = Sleep 10 # evs"
  by (simp add: startReconnectionTrying_def since_def time_Sleep_def perform_def)

lemma start_exhaust:
  assumes "\<forall>j<10. \<not> reconnects (network w (dials w + j))"
  shows "dial_times 0 (since w (startReconnectionTrying w)) = map attempt_time [1..<11]
      \<and> length (filter is_Dial (since w (startReconnectionTrying w))) = 10
      \<and> (\<forall>a b. ShowInformation a b \<notin> set (since w (startReconnectionTrying w)))
      \<and> ((\<forall>j<10. isl (network w (dials w + j))) \<longrightarrow>
           filter is_notification (since w (startReconnectionTrying w)) = [])"
proof -
  let ?w0 = "time_Sleep 10 w"
  have same: "dials ?w0 = dials w" "network ?w0 = network w"
    by (simp_all add: time_Sleep_def perform_def)
  have "\<forall>j<10. \<not> reconnects (network ?w0 (dials ?w0 + j))"
    using assms by (simp add: same)
  from loop_exhaust [of 0 10 ?w0, OF _ _ this]
  obtain evs where evs:
    "trace (startReconnectionTrying_loop 0 ?w0) = trace ?w0 @ evs"
    "dial_times (attempt_time 0) evs = map attempt_time [Suc 0..<11]"
    "length (filter is_Dial evs) = 10"
    "\<forall>a b. ShowInformation a b \<notin> set evs"
    "(\<forall>j<10. isl (network ?w0 (dials ?w0 + j))) \<longrightarrow> filter is_notification evs = []"
    by auto
  have S: "since w (startReconnectionTrying w) = Sleep 10 # evs"
    using evs(1) by (rule start_trace)
  show ?thesis
    using evs(2-5) by (simp add: S attempt_time_0 same)
qed

lemma start_success:
  assumes "k < 10" "\<forall>j<k. \<not> reconnects (network w (dials w + j))"
    "reconnects (network w (dials w + k))"
  shows "\<exists>evs. since w (startReconnectionTrying w) =
          evs @ [ShowInformation ''Success!'' ''Connection restored!'']
      \<and> dial_times 0 evs = map attempt_time [1..<Suc (Suc k)]
      \<and> length (filter is_Dial evs) = Suc k
      \<and> (\<forall>a b. ShowInformation a b \<notin> set evs)
      \<and> ((\<forall>j<k. isl (network w (dials w + j))) \<longrightarrow> filter is_notification evs = [])"
proof -
  let ?w0 = "time_Sleep 10 w"
  have same: "dials ?w0 = dials w" "network ?w0 = network w"
    by (simp_all add: time_Sleep_def perform_def)
  have a: "0 + k < 10" using assms(1) by simp
  have b: "\<forall>j<k. \<not> reconnects (network ?w0 (dials ?w0 + j))"
    using assms(2) by (simp add: same)
  have c: "reconnects (network ?w0 (dials ?w0 + k))"
    using assms(3) by (simp add: same)
  from loop_success [OF a b c]
  obtain evs where evs:
    "trace (startReconnectionTrying_loop 0 ?w0) =
       trace ?w0 @ evs @ [ShowInformation ''Success!'' ''Connection restored!'']"
    "dial_times (attempt_time 0) evs = map attempt_time [Suc 0..<Suc (Suc (0 + k))]"
    "length (filter is_Dial evs) = Suc k"
    "\<forall>a b. ShowInformation a b \<notin> set evs"
    "(\<forall>j<k. isl (network ?w0 (dials ?w0 + j))) \<longrightarrow> filter is_notification evs = []"
    by auto
  have S: "since w (startReconnectionTrying w) =
      (Sleep 10 # evs) @ [ShowInformation ''Success!'' ''Connection restored!'']"
    using start_trace [OF evs(1)] by simp
  have "dial_times 0 (Sleep 10 # evs) = map attempt_time [1..<Suc (Suc k)]"
    using evs(2) by (simp add: attempt_time_0)
  moreover have "length (filter is_Dial (Sleep 10 # evs)) = Suc k"
    using evs(3) by simp
  moreover have "\<forall>a b. ShowInformation a b \<notin> set (Sleep 10 # evs)"
    using evs(4) by simp
  moreover have "(\<forall>j<k. isl (network w (dials w + j))) \<longrightarrow> filter is_notification (Sleep 10 # evs) = []"
    using evs(5) by (simp add: same)
  ultimately show ?thesis using S by blast
qed

lemma dial_times_snoc_info:
  "dial_times t (evs @ [ShowInformation a b]) = dial_times t evs"
  by (simp add: dial_times_append)

lemma start_general:
  "\<exists>n. 1 \<le> n \<and> n \<le> 10
     \<and> dial_times 0 (since w (startReconnectionTrying w)) = map attempt_time [1..<Suc n]
     \<and> length (filter is_Dial (since w (startReconnectionTrying w))) = n"
proof -
  let ?P = "\<lambda>j. reconnects (network w (dials w + j))"
  from first_success [of 10 ?P] show ?thesis
  proof
    assume "\<forall>j<10. \<not> ?P j"
    from start_exhaust [OF this] show ?thesis
      by (intro exI [of _ 10]) simp
  next
    assume "\<exists>k<10. (\<forall>j<k. \<not> ?P j) \<and> ?P k"
    then obtain k where k: "k < 10" "\<forall>j<k. \<not> ?P j" "?P k" by blast
    from start_success [OF k] obtain evs where evs:
      "since w (startReconnectionTrying w) = evs @ [ShowInformation ''Success!'' ''Connection restored!'']"
      "dial_times 0 evs = map attempt_time [1..<Suc (Suc k)]"
      "length (filter is_Dial evs) = Suc k"
      by blast
    show ?thesis
      using evs k(1) by (intro exI [of _ "Suc k"]) (simp add: dial_times_snoc_info)
  qed
qed

lemma attempt_times_10: "map attempt_time [1..<11] = [11, 72, 193, 374, 615, 916, 1277, 1698, 2179, 2720]"
  by (simp add: attempt_time_def upt_rec sum.atLeastLessThan_Suc numeral_eq_Suc)

text \<open>
  C2, as the code has it. The loop dials at most ten times, and its \<open>k\<close>-th dial
  (\<open>k = 1, ..., 10\<close>) fires no earlier than \<open>attempt_time k\<close>: the initial 10 seconds,
  the minutes \<open>1 + ... + (k - 1)\<close>, and one second per call of \<^verbatim>\<open>connect\<close>. The
  first attempt follows the initial delay without a further minute, attempt \<open>k + 1\<close>
  follows attempt \<open>k\<close> by \<open>k\<close> minutes and a second, and these gaps grow strictly.
\<close>

theorem retry_schedule:
  "(\<exists>n. 1 \<le> n \<and> n \<le> 10
      \<and> dial_times 0 (since w (startReconnectionTrying w)) = map attempt_time [1..<Suc n])
   \<and> ((\<forall>j<10. \<not> reconnects (network w (dials w + j))) \<longrightarrow>
        dial_times 0 (since w (startReconnectionTrying w)) = map attempt_time [1..<11])
   \<and> attempt_time 1 = 10 + 1
   \<and> attempt_time (Suc k) = attempt_time k + 60 * k + 1
   \<and> attempt_time (Suc k) - attempt_time k < attempt_time (Suc (Suc k)) - attempt_time (Suc k)"
proof -
  have some: "\<exists>n. 1 \<le> n \<and> n \<le> 10
      \<and> dial_times 0 (since w (startReconnectionTrying w)) = map attempt_time [1..<Suc n]"
    using start_general [of w] by blast
  have all: "(\<forall>j<10. \<not> reconnects (network w (dials w + j))) \<longrightarrow>
        dial_times 0 (since w (startReconnectionTrying w)) = map attempt_time [1..<11]"
    using start_exhaust [of w] by blast
  have first: "attempt_time 1 = 10 + 1"
    by (simp add: attempt_time_def)
  have gaps: "attempt_time (Suc k) - attempt_time k < attempt_time (Suc (Suc k)) - attempt_time (Suc k)"
    by (simp add: attempt_time_Suc)
  show ?thesis
    using some all first gaps attempt_time_Suc [of k] by blast
qed

theorem retry_schedule_witness:
  "dial_times 0
     (since (init_World None True example_Marshal example_Unmarshal (\<lambda>n. Inl ''refused''))
       (startReconnectionTrying
         (init_World None True example_Marshal example_Unmarshal (\<lambda>n. Inl ''refused''))))
   = map attempt_time [1..<11]
   \<and> attempt_time 2 = 72 \<and> attempt_time 3 = 193"
proof -
  have fails: "\<forall>j<10. \<not> reconnects
      (network (init_World None True example_Marshal example_Unmarshal (\<lambda>n. Inl ''refused''))
        (dials (init_World None True example_Marshal example_Unmarshal (\<lambda>n. Inl ''refused'')) + j))"
    by (simp add: init_World_def ChatApplication.extend_def reconnects_def)
  have two: "attempt_time 2 = 72"
    using retry_schedule [of "init_World None True example_Marshal example_Unmarshal (\<lambda>n. Inl ''refused'')" 1]
    by (simp add: numeral_2_eq_2)
  have three: "attempt_time 3 = 193"
    using two
      retry_schedule [of "init_World None True example_Marshal example_Unmarshal (\<lambda>n. Inl ''refused'')" 2]
    by (simp add: numeral_3_eq_3 numeral_2_eq_2)
  show ?thesis
    using fails two three
      retry_schedule [of "init_World None True example_Marshal example_Unmarshal (\<lambda>n. Inl ''refused'')" 0]
    by blast
qed

text \<open>
  C2 as stated fails. With every dial refused the attempts fire 11, 72, 193, ... seconds
  after the loop starts: the first one 11 seconds in, before the 70 seconds (10 seconds
  plus one minute) that the claim gives it, and with no minute slept before it; the
  minute comes before the second attempt.
\<close>

theorem retry_fires_early:
  "dial_times 0
     (since (init_World None True example_Marshal example_Unmarshal (\<lambda>n. Inl ''refused''))
       (startReconnectionTrying
         (init_World None True example_Marshal example_Unmarshal (\<lambda>n. Inl ''refused''))))
   = [11, 72, 193, 374, 615, 916, 1277, 1698, 2179, 2720]
   \<and> claimed_time 1 = 70
   \<and> take 6
     (since (init_World None True example_Marshal example_Unmarshal (\<lambda>n. Inl ''refused''))
       (startReconnectionTrying
         (init_World None True example_Marshal example_Unmarshal (\<lambda>n. Inl ''refused''))))
   = [Sleep 10, Sleep 1, Dial ''localhost'' 3811, Sleep 60, Sleep 1, Dial ''localhost'' 3811]"
  by (simp add: startReconnectionTrying_def startReconnectionTrying_loop.simps
      time_Sleep_def perform_def getHostDataFromSettingsFile_def saveDefaultHostSettings_def
      connect_def gosocketio_Dial_def Let_def
      init_World_def init_def ChatApplication.extend_def since_def
      example_Marshal_def example_Unmarshal_def DEFAULT_HOST_def DEFAULT_PORT_def
      fmt_d_def fmt_nat.simps claimed_time_def)

text \<open>
  C3. The retry loop ends after at most ten dials. At the first attempt on which
  \<^verbatim>\<open>connect\<close> returns true it shows the dialog "Connection restored!" as its last
  act, having dialled exactly that many times and shown no such dialog before. When all
  ten attempts fail it has dialled ten times and shows no success dialog, and when
  they fail at the dial it shows no dialog at all.
\<close>

theorem retry_loop_terminates:
  "length (filter is_Dial (since w (startReconnectionTrying w))) \<le> 10
   \<and> (\<forall>k<10. (\<forall>j<k. \<not> reconnects (network w (dials w + j)))
          \<and> reconnects (network w (dials w + k)) \<longrightarrow>
        (\<exists>evs. since w (startReconnectionTrying w) =
                  evs @ [ShowInformation ''Success!'' ''Connection restored!'']
           \<and> (\<forall>a b. ShowInformation a b \<notin> set evs)
           \<and> length (filter is_Dial evs) = Suc k))
   \<and> ((\<forall>j<10. \<not> reconnects (network w (dials w + j))) \<longrightarrow>
        length (filter is_Dial (since w (startReconnectionTrying w))) = 10
        \<and> (\<forall>a b. ShowInformation a b \<notin> set (since w (startReconnectionTrying w))))
   \<and> ((\<forall>j<10. isl (network w (dials w + j))) \<longrightarrow>
        filter is_notification (since w (startReconnectionTrying w)) = [])"
proof -
  have bound: "length (filter is_Dial (since w (startReconnectionTrying w))) \<le> 10"
    using start_general [of w] by auto
  have success: "\<exists>evs. since w (startReconnectionTrying w) =
                  evs @ [ShowInformation ''Success!'' ''Connection restored!'']
           \<and> (\<forall>a b. ShowInformation a b \<notin> set evs)
           \<and> length (filter is_Dial evs) = Suc k"
    if "k < 10" and "\<forall>j<k. \<not> reconnects (network w (dials w + j))"
      and "reconnects (network w (dials w + k))" for k
    using start_success [OF that] by blast
  have exhausted: "length (filter is_Dial (since w (startReconnectionTrying w))) = 10
        \<and> (\<forall>a b. ShowInformation a b \<notin> set (since w (startReconnectionTrying w)))"
    if "\<forall>j<10. \<not> reconnects (network w (dials w + j))"
    using start_exhaust [OF that] by blast
  have silent: "filter is_notification (since w (startReconnectionTrying w)) = []"
    if dead: "\<forall>j<10. isl (network w (dials w + j))"
  proof -
    have "\<forall>j<10. \<not> reconnects (network w (dials w + j))"
      using dead by (auto simp: reconnects_def split: sum.splits)
    from start_exhaust [OF this] dead show ?thesis by blast
  qed
  show ?thesis
    using bound success exhausted silent by blast
qed

theorem retry_loop_terminates_witness:
  "filter is_notification
     (since (init_World None True example_Marshal example_Unmarshal (\<lambda>n. Inl ''refused''))
       (startReconnectionTrying
         (init_World None True example_Marshal example_Unmarshal (\<lambda>n. Inl ''refused'')))) = []
   \<and> length (filter is_Dial
     (since (init_World None True example_Marshal example_Unmarshal (\<lambda>n. Inl ''refused''))
       (startReconnectionTrying
         (init_World None True example_Marshal example_Unmarshal (\<lambda>n. Inl ''refused''))))) = 10
   \<and> (\<exists>evs.
        since (init_World None True example_Marshal example_Unmarshal
                (\<lambda>n. if n = 2 then Inr \<lparr>OnError = \<lambda>name. None\<rparr> else Inl ''refused''))
          (startReconnectionTrying (init_World None True example_Marshal example_Unmarshal
                (\<lambda>n. if n = 2 then Inr \<lparr>OnError = \<lambda>name. None\<rparr> else Inl ''refused'')))
        = evs @ [ShowInformation ''Success!'' ''Connection restored!'']
        \<and> length (filter is_Dial evs) = 3)"
proof -
  let ?dead = "init_World None True example_Marshal example_Unmarshal (\<lambda>n. Inl ''refused'')"
  let ?third = "init_World None True example_Marshal example_Unmarshal
                (\<lambda>n. if n = 2 then Inr \<lparr>OnError = \<lambda>name. None\<rparr> else Inl ''refused'')"
  have dead: "\<forall>j<10. isl (network ?dead (dials ?dead + j))"
    by (simp add: init_World_def ChatApplication.extend_def)
  have dead': "\<forall>j<10. \<not> reconnects (network ?dead (dials ?dead + j))"
    by (simp add: init_World_def ChatApplication.extend_def reconnects_def)
  have third: "(2::nat) < 10 \<and> (\<forall>j<2. \<not> reconnects (network ?third (dials ?third + j)))
      \<and> reconnects (network ?third (dials ?third + 2))"
    by (simp add: init_World_def ChatApplication.extend_def reconnects_def)
  have "\<exists>evs. since ?third (startReconnectionTrying ?third) =
                  evs @ [ShowInformation ''Success!'' ''Connection restored!'']
           \<and> (\<forall>a b. ShowInformation a b \<notin> set evs)
           \<and> length (filter is_Dial evs) = Suc 2"
    using third retry_loop_terminates [of ?third] by blast
  then have c: "\<exists>evs. since ?third (startReconnectionTrying ?third) =
                  evs @ [ShowInformation ''Success!'' ''Connection restored!'']
           \<and> length (filter is_Dial evs) = 3"
    by (auto simp: numeral_3_eq_3)
  have a: "filter is_notification (since ?dead (startReconnectionTrying ?dead)) = []"
    using dead retry_loop_terminates [of ?dead] by blast
  have b: "length (filter is_Dial (since ?dead (startReconnectionTrying ?dead))) = 10"
    using dead' retry_loop_terminates [of ?dead] by blast
  show ?thesis using a b c by blast
qed

end
